theory Spec2Isabelle
  imports Main
begin

section \<open>Cells, frames and the library interface\<close>

text \<open>
  The dashboard (\<^verbatim>\<open>app.py\<close>) keeps two tables as pandas frames. A frame is modelled
  column-wise, as pandas stores it: the number of rows and the columns in grid order, each a
  name with its cells. A cell is a tagged value: Python's \<^verbatim>\<open>None\<close>, the float
  \<^verbatim>\<open>nan\<close>, the null timestamp \<^verbatim>\<open>NaT\<close>, an integer, a float other than
  \<^verbatim>\<open>nan\<close>, a string or a timestamp. Coercions act cell by cell.

  Floats and timestamps are type parameters, and what pandas computes on them (printing,
  parsing, casting) is a parameter of the model, the record \<open>pandas\<close> below: every theorem
  holds for every such library. Strings are ASCII: a character outside ASCII is neither a
  digit nor white space and has no lower case.
\<close>

datatype ('f, 'd) cell = NoneV | NaN | NaT | IntV int | FloatV 'f | StrV string | DateV 'd

record ('f, 'd) dataframe =
  nrows :: nat
  columns :: "(string \<times> ('f, 'd) cell list) list"

datatype error = KeyError string | ValueError | LoadError | SaveError

record ('f, 'd) pandas =
  str_of_float :: "'f \<Rightarrow> string"
  str_of_date :: "'d \<Rightarrow> string"
  csv_of_date :: "'d \<Rightarrow> string"
  zero_float :: 'f
  numeric_of_str :: "string \<Rightarrow> (int + 'f) option"
  numeric_of_date :: "'d option \<Rightarrow> (int + 'f) option"
  int_of_float :: "'f \<Rightarrow> int option"
  datetime_of_int :: "int \<Rightarrow> 'd option"
  datetime_of_float :: "'f \<Rightarrow> 'd option"
  datetime_of_str :: "string \<Rightarrow> 'd option"

text \<open>
  The fields: \<^verbatim>\<open>str\<close> of a float and of a timestamp; the text \<^verbatim>\<open>to_csv\<close> writes for a
  timestamp; the float 0.0; the number \<^verbatim>\<open>pd.to_numeric\<close> reads from a non-empty string
  (\<open>Inl\<close> an integer, \<open>Inr\<close> a float; \<open>None\<close> when the string is not a number) and the
  one it makes of a timestamp (of \<^verbatim>\<open>NaT\<close> for the argument \<open>None\<close>); the integer
  \<^verbatim>\<open>astype(int)\<close> casts a float to (\<open>None\<close> when it raises); and the timestamp
  \<^verbatim>\<open>pd.to_datetime\<close> reads from an integer, a float and a string (\<open>None\<close> when it
  does not parse).
\<close>

subsection \<open>Python strings\<close>

definition is_space :: "char \<Rightarrow> bool" where
  "is_space c \<longleftrightarrow> c \<in> set [CHR 0x09, CHR 0x0A, CHR 0x0B, CHR 0x0C, CHR 0x0D,
     CHR 0x1C, CHR 0x1D, CHR 0x1E, CHR 0x1F, CHR 0x20]"

text \<open>\<^verbatim>\<open>str.strip()\<close>\<close>

definition strip :: "string \<Rightarrow> string" where
  "strip s = rev (dropWhile is_space (rev (dropWhile is_space s)))"

text \<open>\<^verbatim>\<open>str.lower()\<close>\<close>

definition lower_char :: "char \<Rightarrow> char" where
  "lower_char c =
     (case map_of (zip ''ABCDEFGHIJKLMNOPQRSTUVWXYZ'' ''abcdefghijklmnopqrstuvwxyz'') c of
        Some l \<Rightarrow> l
      | None \<Rightarrow> c)"

definition lower :: "string \<Rightarrow> string" where
  "lower s = map lower_char s"

text \<open>\<^verbatim>\<open>str.isdigit()\<close> and \<^verbatim>\<open>int(s)\<close> on a string of digits\<close>

definition digit_value :: "char \<Rightarrow> nat option" where
  "digit_value c = map_of (zip ''0123456789'' [0, 1, 2, 3, 4, 5, 6, 7, 8, 9]) c"

definition isdigit :: "string \<Rightarrow> bool" where
  "isdigit s \<longleftrightarrow> s \<noteq> [] \<and> list_all (\<lambda>c. digit_value c \<noteq> None) s"

definition int_of_digits :: "string \<Rightarrow> nat" where
  "int_of_digits s = foldl (\<lambda>a c. 10 * a + (case digit_value c of Some d \<Rightarrow> d | None \<Rightarrow> 0)) 0 s"

text \<open>\<^verbatim>\<open>str(n)\<close> for an integer\<close>

fun str_of_nat :: "nat \<Rightarrow> string" where
  "str_of_nat n =
     (if n < 10 then [''0123456789'' ! n]
      else str_of_nat (n div 10) @ [''0123456789'' ! (n mod 10)])"

definition str_of_int :: "int \<Rightarrow> string" where
  "str_of_int i = (if i < 0 then CHR ''-'' # str_of_nat (nat (- i)) else str_of_nat (nat i))"

subsection \<open>Series operations, cell by cell\<close>

text \<open>\<^verbatim>\<open>pd.isna\<close>\<close>

fun isnull :: "('f, 'd) cell \<Rightarrow> bool" where
  "isnull NoneV = True"
| "isnull NaN = True"
| "isnull NaT = True"
| "isnull _ = False"

text \<open>\<^verbatim>\<open>Series.fillna(v)\<close>\<close>

definition fillna :: "('f, 'd) cell \<Rightarrow> ('f, 'd) cell \<Rightarrow> ('f, 'd) cell" where
  "fillna v c = (if isnull c then v else c)"

text \<open>
  \<^verbatim>\<open>Series.astype(str)\<close> applies \<^verbatim>\<open>str\<close> to every cell, null cells included
  (pandas 1 and 2, the versions that still have the calls the script makes):
  \<^verbatim>\<open>None\<close> becomes the four letters \<^verbatim>\<open>None\<close>, \<^verbatim>\<open>nan\<close> becomes \<^verbatim>\<open>nan\<close>.
\<close>

fun py_str :: "('f, 'd) pandas \<Rightarrow> ('f, 'd) cell \<Rightarrow> string" where
  "py_str pd NoneV = ''None''"
| "py_str pd NaN = ''nan''"
| "py_str pd NaT = ''NaT''"
| "py_str pd (IntV n) = str_of_int n"
| "py_str pd (FloatV f) = str_of_float pd f"
| "py_str pd (StrV s) = s"
| "py_str pd (DateV d) = str_of_date pd d"

definition astype_str :: "('f, 'd) pandas \<Rightarrow> ('f, 'd) cell \<Rightarrow> ('f, 'd) cell" where
  "astype_str pd c = StrV (py_str pd c)"

text \<open>
  \<^verbatim>\<open>pd.to_numeric(s, errors="coerce")\<close>: a number stays, a null cell and the empty
  string become \<^verbatim>\<open>nan\<close>, another string is parsed by the library and becomes
  \<^verbatim>\<open>nan\<close> when it is not a number.
\<close>

definition of_numeric :: "(int + 'f) option \<Rightarrow> ('f, 'd) cell" where
  "of_numeric r = (case r of None \<Rightarrow> NaN | Some (Inl n) \<Rightarrow> IntV n | Some (Inr f) \<Rightarrow> FloatV f)"

fun to_numeric :: "('f, 'd) pandas \<Rightarrow> ('f, 'd) cell \<Rightarrow> ('f, 'd) cell" where
  "to_numeric pd NoneV = NaN"
| "to_numeric pd NaN = NaN"
| "to_numeric pd NaT = of_numeric (numeric_of_date pd None)"
| "to_numeric pd (IntV n) = IntV n"
| "to_numeric pd (FloatV f) = FloatV f"
| "to_numeric pd (StrV s) = (if s = [] then NaN else of_numeric (numeric_of_str pd s))"
| "to_numeric pd (DateV d) = of_numeric (numeric_of_date pd (Some d))"

text \<open>
  \<^verbatim>\<open>Series.astype(int)\<close>: an integer stays, a float is cast by the library, which
  raises when the float has no integer value (an infinite one). After \<^verbatim>\<open>to_numeric\<close>
  and \<^verbatim>\<open>fillna(0)\<close> a column holds nothing else; on any other cell the cast raises.
\<close>

fun astype_int_cell :: "('f, 'd) pandas \<Rightarrow> ('f, 'd) cell \<Rightarrow> error + ('f, 'd) cell" where
  "astype_int_cell pd (IntV n) = Inr (IntV n)"
| "astype_int_cell pd (FloatV f) =
     (case int_of_float pd f of None \<Rightarrow> Inl ValueError | Some n \<Rightarrow> Inr (IntV n))"
| "astype_int_cell pd _ = Inl ValueError"

fun astype_int :: "('f, 'd) pandas \<Rightarrow> ('f, 'd) cell list \<Rightarrow> error + ('f, 'd) cell list" where
  "astype_int pd [] = Inr []"
| "astype_int pd (c # cs) =
     (case astype_int_cell pd c of
        Inl e \<Rightarrow> Inl e
      | Inr v \<Rightarrow> (case astype_int pd cs of Inl e \<Rightarrow> Inl e | Inr vs \<Rightarrow> Inr (v # vs)))"

text \<open>\<^verbatim>\<open>pd.to_datetime(s, errors="coerce")\<close>: what does not parse becomes \<^verbatim>\<open>NaT\<close>.\<close>

definition of_datetime :: "'d option \<Rightarrow> ('f, 'd) cell" where
  "of_datetime r = (case r of None \<Rightarrow> NaT | Some d \<Rightarrow> DateV d)"

fun to_datetime :: "('f, 'd) pandas \<Rightarrow> ('f, 'd) cell \<Rightarrow> ('f, 'd) cell" where
  "to_datetime pd NoneV = NaT"
| "to_datetime pd NaN = NaT"
| "to_datetime pd NaT = NaT"
| "to_datetime pd (IntV n) = of_datetime (datetime_of_int pd n)"
| "to_datetime pd (FloatV f) = of_datetime (datetime_of_float pd f)"
| "to_datetime pd (StrV s) = of_datetime (datetime_of_str pd s)"
| "to_datetime pd (DateV d) = DateV d"

subsection \<open>Frame operations\<close>

definition names :: "('f, 'd) dataframe \<Rightarrow> string list" where
  "names df = map fst (columns df)"

text \<open>\<^verbatim>\<open>df[c]\<close>: KeyError when the frame has no such column.\<close>

definition get_col :: "('f, 'd) dataframe \<Rightarrow> string \<Rightarrow> error + ('f, 'd) cell list" where
  "get_col df c = (case map_of (columns df) c of None \<Rightarrow> Inl (KeyError c) | Some cs \<Rightarrow> Inr cs)"

text \<open>\<^verbatim>\<open>df[c] = series\<close>: replaces the column in place, or appends it as the last one.\<close>

definition set_col :: "('f, 'd) dataframe \<Rightarrow> string \<Rightarrow> ('f, 'd) cell list \<Rightarrow> ('f, 'd) dataframe" where
  "set_col df c cs =
     (if c \<in> set (names df)
      then df\<lparr>columns := map (\<lambda>(n, old). if n = c then (n, cs) else (n, old)) (columns df)\<rparr>
      else df\<lparr>columns := columns df @ [(c, cs)]\<rparr>)"

text \<open>\<^verbatim>\<open>df[c] = v\<close> for a scalar: the value in every row.\<close>

definition set_scalar :: "('f, 'd) dataframe \<Rightarrow> string \<Rightarrow> ('f, 'd) cell \<Rightarrow> ('f, 'd) dataframe" where
  "set_scalar df c v = set_col df c (replicate (nrows df) v)"

text \<open>\<^verbatim>\<open>df.columns = df.columns.str.strip()\<close>\<close>

definition strip_columns :: "('f, 'd) dataframe \<Rightarrow> ('f, 'd) dataframe" where
  "strip_columns df = df\<lparr>columns := map (\<lambda>(n, cs). (strip n, cs)) (columns df)\<rparr>"

text \<open>\<^verbatim>\<open>df.rename(columns=mapping, inplace=True)\<close>\<close>

definition rename :: "(string \<times> string) list \<Rightarrow> ('f, 'd) dataframe \<Rightarrow> ('f, 'd) dataframe" where
  "rename mapping df =
     df\<lparr>columns := map (\<lambda>(n, cs). (case map_of mapping n of Some n' \<Rightarrow> n' | None \<Rightarrow> n, cs))
                        (columns df)\<rparr>"

text \<open>\<^verbatim>\<open>df.drop(df.index[idx], inplace=True)\<close> on a frame with its default index.\<close>

definition drop_nth :: "nat \<Rightarrow> 'a list \<Rightarrow> 'a list" where
  "drop_nth i xs = take i xs @ drop (Suc i) xs"

definition drop_row :: "('f, 'd) dataframe \<Rightarrow> nat \<Rightarrow> ('f, 'd) dataframe" where
  "drop_row df idx =
     df\<lparr>nrows := nrows df - 1, columns := map (\<lambda>(n, cs). (n, drop_nth idx cs)) (columns df)\<rparr>"

text \<open>
  \<^verbatim>\<open>df.loc[mask, c] = v\<close>: the value in the rows the mask selects. A column that does
  not exist is created, with \<^verbatim>\<open>nan\<close> in the other rows.
\<close>

definition loc_set :: "('f, 'd) dataframe \<Rightarrow> bool list \<Rightarrow> string \<Rightarrow> ('f, 'd) cell \<Rightarrow> ('f, 'd) dataframe" where
  "loc_set df sel c v =
     (if c \<in> set (names df)
      then df\<lparr>columns :=
             map (\<lambda>(n, old). if n = c then (n, map (\<lambda>(m, x). if m then v else x) (zip sel old))
                              else (n, old))
                 (columns df)\<rparr>
      else df\<lparr>columns := columns df @ [(c, map (\<lambda>m. if m then v else NaN) sel)]\<rparr>)"

text \<open>
  A frame is well formed when its column names are distinct and every column has one cell
  per row. The frames pandas reads from a table and the editor returns are well formed; on
  a frame with a repeated column name \<^verbatim>\<open>df[c]\<close> would be a frame, not a series, and
  the model (which takes the first such column) does not follow pandas there.
\<close>

definition wf_df :: "('f, 'd) dataframe \<Rightarrow> bool" where
  "wf_df df \<longleftrightarrow> distinct (names df) \<and> list_all (\<lambda>(n, cs). length cs = nrows df) (columns df)"

text \<open>The cells of a column, for a column that is there.\<close>

definition col :: "('f, 'd) dataframe \<Rightarrow> string \<Rightarrow> ('f, 'd) cell list" where
  "col df c = (case map_of (columns df) c of None \<Rightarrow> [] | Some cs \<Rightarrow> cs)"

section \<open>The database\<close>

text \<open>
  The database holds a frame per table name. \<^verbatim>\<open>to_sql(name, if_exists="replace",
  index=False)\<close> replaces the whole table; what the server keeps of a frame written under a
  name, and whether it accepts the write at all, is the database's own business and a
  parameter here (\<open>store\<close>, \<open>None\<close> when the write fails).
\<close>

record ('f, 'd) database =
  tables :: "string \<Rightarrow> ('f, 'd) dataframe option"
  store :: "string \<Rightarrow> ('f, 'd) dataframe \<Rightarrow> ('f, 'd) dataframe option"

definition read_sql :: "('f, 'd) database \<Rightarrow> string \<Rightarrow> error + ('f, 'd) dataframe" where
  "read_sql d name = (case tables d name of None \<Rightarrow> Inl LoadError | Some t \<Rightarrow> Inr t)"

definition to_sql :: "('f, 'd) database \<Rightarrow> string \<Rightarrow> ('f, 'd) dataframe \<Rightarrow> error + ('f, 'd) database" where
  "to_sql d name df =
     (case store d name df of
        None \<Rightarrow> Inl SaveError
      | Some t \<Rightarrow> Inr (d\<lparr>tables := (tables d)(name \<mapsto> t)\<rparr>))"

section \<open>Loading\<close>

definition timeline_mapping :: "(string \<times> string) list" where
  "timeline_mapping =
     [(''activity'', ''Activity''), (''item'', ''Item''), (''task'', ''Task''),
      (''room'', ''Room''), (''location'', ''Location''), (''notes'', ''Notes''),
      (''start_date'', ''Start Date''), (''end_date'', ''End Date''),
      (''status'', ''Status''), (''workdays'', ''Workdays''), (''progress'', ''Progress'')]"

definition items_mapping :: "(string \<times> string) list" where
  "items_mapping =
     [(''item'', ''Item''), (''quantity'', ''Quantity''), (''order_status'', ''Order Status''),
      (''delivery_status'', ''Delivery Status''), (''notes'', ''Notes'')]"

text \<open>\<^verbatim>\<open>if c in df.columns: df[c] = pd.to_datetime(df[c], errors="coerce")\<close>\<close>

definition to_datetime_col :: "('f, 'd) pandas \<Rightarrow> ('f, 'd) dataframe \<Rightarrow> string \<Rightarrow> ('f, 'd) dataframe" where
  "to_datetime_col pd df c =
     (if c \<in> set (names df) then set_col df c (map (to_datetime pd) (col df c)) else df)"

text \<open>\<^verbatim>\<open>df["Status"] = df["Status"].astype(str).fillna("Not Started")\<close>\<close>

definition status_coerce :: "('f, 'd) pandas \<Rightarrow> ('f, 'd) dataframe \<Rightarrow> error + ('f, 'd) dataframe" where
  "status_coerce pd df =
     (case get_col df ''Status'' of
        Inl e \<Rightarrow> Inl e
      | Inr s \<Rightarrow> Inr (set_col df ''Status''
                  (map (\<lambda>c. fillna (StrV ''Not Started'') (astype_str pd c)) s)))"

definition load_timeline_data :: "('f, 'd) pandas \<Rightarrow> ('f, 'd) database \<Rightarrow> error + ('f, 'd) dataframe" where
  "load_timeline_data pd d =
     (case read_sql d ''Contrcution_Timeline'' of
        Inl e \<Rightarrow> Inl e
      | Inr df0 \<Rightarrow>
          let df1 = rename timeline_mapping (strip_columns df0);
              df2 = to_datetime_col pd df1 ''Start Date'';
              df3 = to_datetime_col pd df2 ''End Date''
          in status_coerce pd df3)"

text \<open>\<^verbatim>\<open>df[c] = df[c].astype(str)\<close>\<close>

definition astype_str_col :: "('f, 'd) pandas \<Rightarrow> ('f, 'd) dataframe \<Rightarrow> string \<Rightarrow> error + ('f, 'd) dataframe" where
  "astype_str_col pd df c =
     (case get_col df c of
        Inl e \<Rightarrow> Inl e
      | Inr s \<Rightarrow> Inr (set_col df c (map (astype_str pd) s)))"

text \<open>
  \<^verbatim>\<open>df["Quantity"] = pd.to_numeric(df["Quantity"], errors="coerce").fillna(0).astype(int)\<close>
\<close>

definition quantity_cell :: "('f, 'd) pandas \<Rightarrow> ('f, 'd) cell \<Rightarrow> ('f, 'd) cell" where
  "quantity_cell pd c = fillna (IntV 0) (to_numeric pd c)"

definition coerce_quantity :: "('f, 'd) pandas \<Rightarrow> ('f, 'd) dataframe \<Rightarrow> error + ('f, 'd) dataframe" where
  "coerce_quantity pd df =
     (case get_col df ''Quantity'' of
        Inl e \<Rightarrow> Inl e
      | Inr s \<Rightarrow>
          (case astype_int pd (map (quantity_cell pd) s) of
             Inl e \<Rightarrow> Inl e
           | Inr q \<Rightarrow> Inr (set_col df ''Quantity'' q)))"

text \<open>The five coercions of the Items grid, in the order of lines 67 to 71 (and 220 to 224).\<close>

definition coerce_items :: "('f, 'd) pandas \<Rightarrow> ('f, 'd) dataframe \<Rightarrow> error + ('f, 'd) dataframe" where
  "coerce_items pd df =
     (case astype_str_col pd df ''Item'' of
        Inl e \<Rightarrow> Inl e
      | Inr d1 \<Rightarrow>
     (case coerce_quantity pd d1 of
        Inl e \<Rightarrow> Inl e
      | Inr d2 \<Rightarrow>
     (case astype_str_col pd d2 ''Order Status'' of
        Inl e \<Rightarrow> Inl e
      | Inr d3 \<Rightarrow>
     (case astype_str_col pd d3 ''Delivery Status'' of
        Inl e \<Rightarrow> Inl e
      | Inr d4 \<Rightarrow> astype_str_col pd d4 ''Notes''))))"

definition load_items_data :: "('f, 'd) pandas \<Rightarrow> ('f, 'd) database \<Rightarrow> error + ('f, 'd) dataframe" where
  "load_items_data pd d =
     (case read_sql d ''Items_Order'' of
        Inl e \<Rightarrow> Inl e
      | Inr df0 \<Rightarrow> coerce_items pd (rename items_mapping (strip_columns df0)))"

text \<open>
  Lines 216 to 224 of the script: the Items grid is loaded, then every needed column that is
  missing is added with empty strings, then the five coercions run again.
\<close>

definition needed_cols :: "string list" where
  "needed_cols = [''Item'', ''Quantity'', ''Order Status'', ''Delivery Status'', ''Notes'']"

definition backfill :: "('f, 'd) dataframe \<Rightarrow> ('f, 'd) dataframe" where
  "backfill df =
     foldl (\<lambda>g c. if c \<notin> set (names g) then set_scalar g c (StrV []) else g) df needed_cols"

definition items_section :: "('f, 'd) pandas \<Rightarrow> ('f, 'd) database \<Rightarrow> error + ('f, 'd) dataframe" where
  "items_section pd d =
     (case load_items_data pd d of
        Inl e \<Rightarrow> Inl e
      | Inr df \<Rightarrow> coerce_items pd (backfill df))"

section \<open>A script run\<close>

text \<open>
  A run of the script after a button press works on the database, on the grid the script
  holds in its variable (\<^verbatim>\<open>df_main\<close>, \<^verbatim>\<open>edited_df_main\<close> or
  \<^verbatim>\<open>edited_df_items\<close>), and shows messages. \<^verbatim>\<open>st.experimental_rerun()\<close> ends the run
  and starts the script again, which loads both tables afresh; the exception it raises is
  not an \<^verbatim>\<open>Exception\<close>, so the handlers' \<^verbatim>\<open>except Exception\<close> lets it through. An
  exception that no handler catches ends the run: the function returns \<open>Inl\<close>.
\<close>

datatype message =
    Timeline_saved
  | Items_saved
  | Error_saving_data error
  | Invalid_index
  | Not_an_integer_index
  | Column_exists_or_invalid
  | Error_saving_main error
  | Error_saving_items error

datatype severity = Is_success | Is_warning | Is_error

fun severity_of :: "message \<Rightarrow> severity" where
  "severity_of Timeline_saved = Is_success"
| "severity_of Items_saved = Is_success"
| "severity_of (Error_saving_data e) = Is_error"
| "severity_of Invalid_index = Is_error"
| "severity_of Not_an_integer_index = Is_error"
| "severity_of Column_exists_or_invalid = Is_warning"
| "severity_of (Error_saving_main e) = Is_error"
| "severity_of (Error_saving_items e) = Is_error"

record ('f, 'd) run =
  run_db :: "('f, 'd) database"
  grid :: "('f, 'd) dataframe"
  messages :: "message list"
  rerun :: bool

definition say :: "('f, 'd) run \<Rightarrow> message \<Rightarrow> ('f, 'd) run" where
  "say r m = r\<lparr>messages := messages r @ [m]\<rparr>"

definition save_timeline_data :: "('f, 'd) run \<Rightarrow> ('f, 'd) dataframe \<Rightarrow> error + ('f, 'd) run" where
  "save_timeline_data r df =
     (case to_sql (run_db r) ''Contrcution_Timeline'' df of
        Inl e \<Rightarrow> Inl e
      | Inr d \<Rightarrow> Inr ((say (r\<lparr>run_db := d\<rparr>) Timeline_saved)\<lparr>rerun := True\<rparr>))"

definition save_items_data :: "('f, 'd) run \<Rightarrow> ('f, 'd) dataframe \<Rightarrow> error + ('f, 'd) run" where
  "save_items_data r df =
     (case to_sql (run_db r) ''Items_Order'' df of
        Inl e \<Rightarrow> Inl e
      | Inr d \<Rightarrow> Inr ((say (r\<lparr>run_db := d\<rparr>) Items_saved)\<lparr>rerun := True\<rparr>))"

subsection \<open>Row and column management of the main timeline\<close>

text \<open>The button "Delete Row (Main)", with the text of the index field.\<close>

definition delete_row_main :: "('f, 'd) run \<Rightarrow> string \<Rightarrow> ('f, 'd) run" where
  "delete_row_main r delete_index =
     (if isdigit delete_index then
        let idx = int_of_digits delete_index in
        if idx < nrows (grid r) then
          let r1 = r\<lparr>grid := drop_row (grid r) idx\<rparr> in
          (case save_timeline_data r1 (grid r1) of
             Inr r2 \<Rightarrow> r2
           | Inl e \<Rightarrow> say r1 (Error_saving_data e))
        else say r Invalid_index
      else say r Not_an_integer_index)"

text \<open>The button "Add Column (Main)", with the name field and the type the select box gives.\<close>

datatype col_type = String_type | Integer_type | Float_type | Datetime_type

fun zero_value :: "('f, 'd) pandas \<Rightarrow> col_type \<Rightarrow> ('f, 'd) cell" where
  "zero_value pd String_type = StrV []"
| "zero_value pd Integer_type = IntV 0"
| "zero_value pd Float_type = FloatV (zero_float pd)"
| "zero_value pd Datetime_type = NaT"

definition add_column_main :: "('f, 'd) pandas \<Rightarrow> ('f, 'd) run \<Rightarrow> string \<Rightarrow> col_type \<Rightarrow> ('f, 'd) run" where
  "add_column_main pd r new_col_name new_col_type =
     (if new_col_name \<noteq> [] \<and> new_col_name \<notin> set (names (grid r)) then
        let r1 = r\<lparr>grid := set_scalar (grid r) new_col_name (zero_value pd new_col_type)\<rparr> in
        (case save_timeline_data r1 (grid r1) of
           Inr r2 \<Rightarrow> r2
         | Inl e \<Rightarrow> say r1 (Error_saving_data e))
      else say r Column_exists_or_invalid)"

subsection \<open>Saving the main timeline\<close>

text \<open>Lines 200 and 201, on the grid the editor returns.\<close>

definition editor_status :: "('f, 'd) pandas \<Rightarrow> ('f, 'd) dataframe \<Rightarrow> ('f, 'd) dataframe" where
  "editor_status pd g =
     (if ''Status'' \<in> set (names g)
      then set_col g ''Status''
             (map (\<lambda>c. fillna (StrV ''Not Started'') (astype_str pd c)) (col g ''Status''))
      else g)"

text \<open>
  \<^verbatim>\<open>edited_df_main["Status"].str.lower() == "finished"\<close>, for one cell. Lines 200 and
  201 have made every Status cell a string before this line runs; a cell that is not a
  string would compare unequal.
\<close>

fun is_finished :: "('f, 'd) cell \<Rightarrow> bool" where
  "is_finished (StrV s) = (lower s = ''finished'')"
| "is_finished _ = False"

text \<open>Line 204, the pre-save transform. It stands outside the \<^verbatim>\<open>try\<close>.\<close>

definition pre_save_transform :: "('f, 'd) dataframe \<Rightarrow> error + ('f, 'd) dataframe" where
  "pre_save_transform g =
     (case get_col g ''Status'' of
        Inl e \<Rightarrow> Inl e
      | Inr s \<Rightarrow> Inr (loc_set g (map is_finished s) ''Progress'' (IntV 100)))"

text \<open>The button "Save Updates (Main Timeline)", lines 203 to 208.\<close>

definition save_updates_main :: "('f, 'd) run \<Rightarrow> error + ('f, 'd) run" where
  "save_updates_main r =
     (case pre_save_transform (grid r) of
        Inl e \<Rightarrow> Inl e
      | Inr g \<Rightarrow>
          let r1 = r\<lparr>grid := g\<rparr> in
          (case save_timeline_data r1 g of
             Inr r2 \<Rightarrow> Inr r2
           | Inl e \<Rightarrow> Inr (say r1 (Error_saving_main e))))"

subsection \<open>Saving the Items table\<close>

text \<open>The button "Save Items Table", lines 242 to 247: the coercion stands inside the \<^verbatim>\<open>try\<close>.\<close>

definition save_items_button :: "('f, 'd) pandas \<Rightarrow> ('f, 'd) run \<Rightarrow> ('f, 'd) run" where
  "save_items_button pd r =
     (case coerce_quantity pd (grid r) of
        Inl e \<Rightarrow> say r (Error_saving_items e)
      | Inr g \<Rightarrow>
          let r1 = r\<lparr>grid := g\<rparr> in
          (case save_items_data r1 g of
             Inr r2 \<Rightarrow> r2
           | Inl e \<Rightarrow> say r1 (Error_saving_items e)))"

section \<open>Export\<close>










subsection \<open>A reader for the exported text\<close>




section \<open>Notions for the statements\<close>

text \<open>
  A Quantity cell is non-numeric when it is null (\<^verbatim>\<open>None\<close> or \<^verbatim>\<open>nan\<close>), the empty
  string, or a string the library does not read as a number.
\<close>

definition non_numeric :: "('f, 'd) pandas \<Rightarrow> ('f, 'd) cell \<Rightarrow> bool" where
  "non_numeric pd c \<longleftrightarrow>
     (case c of
        NoneV \<Rightarrow> True
      | NaN \<Rightarrow> True
      | StrV s \<Rightarrow> s = [] \<or> numeric_of_str pd s = None
      | _ \<Rightarrow> False)"



section \<open>A small library to run the model\<close>

text \<open>
  To run the model on concrete tables the library has to be given. This one is enough for
  tables without fractions and dates: a float is given by its whole value, a timestamp by a
  day number, a string is a number when it is a run of digits with an optional minus sign
  before it, and nothing parses as a date.
\<close>

definition whole_number :: "string \<Rightarrow> (int + int) option" where
  "whole_number s =
     (case s of
        [] \<Rightarrow> None
      | c # ds \<Rightarrow>
          if c = CHR ''-'' then (if isdigit ds then Some (Inl (- int (int_of_digits ds))) else None)
          else if isdigit s then Some (Inl (int (int_of_digits s))) else None)"

definition whole_pandas :: "(int, int) pandas" where
  "whole_pandas =
     \<lparr>str_of_float = (\<lambda>f. str_of_int f @ ''.0''),
      str_of_date = str_of_int,
      csv_of_date = str_of_int,
      zero_float = 0,
      numeric_of_str = whole_number,
      numeric_of_date = (\<lambda>d. None),
      int_of_float = Some,
      datetime_of_int = (\<lambda>n. None),
      datetime_of_float = (\<lambda>f. None),
      datetime_of_str = (\<lambda>s. None)\<rparr>"

text \<open>A database that keeps every frame as it is written, and one that refuses every write.\<close>

definition keeping_db :: "(string \<times> ('f, 'd) dataframe) list \<Rightarrow> ('f, 'd) database" where
  "keeping_db ts = \<lparr>tables = map_of ts, store = (\<lambda>name df. Some df)\<rparr>"

definition refusing_db :: "(string \<times> ('f, 'd) dataframe) list \<Rightarrow> ('f, 'd) database" where
  "refusing_db ts = \<lparr>tables = map_of ts, store = (\<lambda>name df. None)\<rparr>"

section \<open>Concrete tables\<close>

text \<open>A timeline grid of two tasks, the first finished (in capitals) with its progress at 50.\<close>

definition example_timeline :: "(int, int) dataframe" where
  "example_timeline =
     \<lparr>nrows = 2,
      columns = [(''Task'', [StrV ''Pour slab'', StrV ''Paint'']),
                 (''Status'', [StrV ''FINISHED'', StrV ''In Progress'']),
                 (''Progress'', [IntV 50, IntV 30])]\<rparr>"

text \<open>A timeline table of one row whose status is NULL, and the same row in the editor's grid.\<close>

definition null_status_db :: "(int, int) database" where
  "null_status_db =
     keeping_db [(''Contrcution_Timeline'',
       \<lparr>nrows = 1, columns = [(''task'', [StrV ''Paint'']), (''status'', [NoneV])]\<rparr>)]"

definition null_status_grid :: "(int, int) dataframe" where
  "null_status_grid = \<lparr>nrows = 1, columns = [(''Task'', [StrV ''Paint'']), (''Status'', [NoneV])]\<rparr>"

text \<open>An Items table whose integer column quantity holds 5 and -2.\<close>

definition negative_quantity_db :: "(int, int) database" where
  "negative_quantity_db =
     keeping_db [(''Items_Order'',
       \<lparr>nrows = 2,
        columns = [(''item'', [StrV ''Cement'', StrV ''Nails'']),
                   (''quantity'', [IntV 5, IntV (- 2)]),
                   (''order_status'', [StrV ''Ordered'', StrV ''Not Ordered'']),
                   (''delivery_status'', [StrV ''Delivered'', StrV ''Not Delivered'']),
                   (''notes'', [StrV [], StrV ''urgent''])]\<rparr>)]"

text \<open>An Items table whose text column quantity holds "5", "abc", "-2" and the empty string.\<close>

definition text_quantity_table :: "(int, int) dataframe" where
  "text_quantity_table =
     \<lparr>nrows = 4,
      columns = [(''item'', [StrV ''a'', StrV ''b'', StrV ''c'', StrV ''d'']),
                 (''quantity'', [StrV ''5'', StrV ''abc'', StrV ''-2'', StrV []]),
                 (''order_status'', [StrV ''Ordered'', StrV ''Ordered'', StrV ''Ordered'', StrV ''Ordered'']),
                 (''delivery_status'', [StrV ''Delayed'', StrV ''Delayed'', StrV ''Delayed'', StrV ''Delayed'']),
                 (''notes'', [NoneV, NoneV, NoneV, NoneV])]\<rparr>"

text \<open>A run that holds the example timeline over a database that keeps what is written.\<close>

definition example_run :: "(int, int) run" where
  "example_run =
     \<lparr>run_db = keeping_db [(''Contrcution_Timeline'', example_timeline)],
      grid = example_timeline, messages = [], rerun = False\<rparr>"


text \<open>
  An edited Items grid with a numeric text, a null and a non-numeric text as quantities, and a
  run that holds it over an empty database that keeps what is written.
\<close>

definition edited_items :: "(int, int) dataframe" where
  "edited_items =
     \<lparr>nrows = 3,
      columns = [(''Item'', [StrV ''Cement'', StrV ''Nails'', StrV ''Sand'']),
                 (''Quantity'', [StrV ''5'', NoneV, StrV ''abc'']),
                 (''Order Status'', [StrV ''Ordered'', StrV ''Not Ordered'', StrV ''Ordered'']),
                 (''Delivery Status'', [StrV ''Delivered'', StrV ''Delayed'', StrV ''Delayed'']),
                 (''Notes'', [StrV [], StrV ''urgent'', StrV []])]\<rparr>"

definition items_run :: "(int, int) run" where
  "items_run = \<lparr>run_db = keeping_db [], grid = edited_items, messages = [], rerun = False\<rparr>"




text \<open>An Items table without the column notes.\<close>

definition no_notes_db :: "(int, int) database" where
  "no_notes_db =
     keeping_db [(''Items_Order'',
       \<lparr>nrows = 1,
        columns = [(''item'', [StrV ''Cement'']),
                   (''quantity'', [IntV 10]),
                   (''order_status'', [StrV ''Ordered'']),
                   (''delivery_status'', [StrV ''Delivered''])]\<rparr>)]"



section \<open>Auxiliary facts\<close>

lemma names_set_col:
  "names (set_col df c cs) = (if c \<in> set (names df) then names df else names df @ [c])"
  by (auto simp: set_col_def names_def split_beta intro!: map_idI) 

lemma nrows_set_col [simp]: "nrows (set_col df c cs) = nrows df"
  by (simp add: set_col_def)

lemma map_of_upd_same:
  "map_of (map (\<lambda>(n, old). if n = c then (n, f old) else (n, old)) xs) c = map_option f (map_of xs c)"
  by (induction xs) auto

lemma map_of_upd_other:
  "c' \<noteq> c \<Longrightarrow> map_of (map (\<lambda>(n, old). if n = c then (n, f old) else (n, old)) xs) c' = map_of xs c'"
  by (induction xs) auto

lemma in_names_iff: "c \<in> set (names df) \<longleftrightarrow> map_of (columns df) c \<noteq> None"
  by (simp add: names_def map_of_eq_None_iff)

lemma col_set_col_same: "col (set_col df c cs) c = cs"
  by (auto simp: col_def set_col_def in_names_iff map_of_upd_same map_add_def)

lemma col_set_col_other: "c' \<noteq> c \<Longrightarrow> col (set_col df c cs) c' = col df c'"
  by (auto simp: col_def set_col_def in_names_iff map_of_upd_other map_add_def split: option.splits)

lemma get_col_Inr_iff: "get_col df c = Inr cs \<longleftrightarrow> c \<in> set (names df) \<and> col df c = cs"
  by (auto simp: get_col_def col_def in_names_iff split: option.splits)

lemma get_col_Inl_iff: "get_col df c = Inl e \<longleftrightarrow> c \<notin> set (names df) \<and> e = KeyError c"
  by (auto simp: get_col_def in_names_iff split: option.splits)

lemma wf_col_length:
  assumes "wf_df df" and "c \<in> set (names df)"
  shows "length (col df c) = nrows df"
proof -
  from assms(2) obtain cs where cs: "map_of (columns df) c = Some cs"
    by (auto simp: in_names_iff)
  then have "(c, cs) \<in> set (columns df)" by (rule map_of_SomeD)
  with assms(1) have "length cs = nrows df" by (auto simp: wf_df_def list_all_iff)
  with cs show ?thesis by (simp add: col_def)
qed

lemma names_loc_set:
  "names (loc_set df sel c v) = (if c \<in> set (names df) then names df else names df @ [c])"
  by (auto simp: loc_set_def names_def split_beta intro!: map_idI)

lemma col_loc_set_same:
  "c \<in> set (names df) \<Longrightarrow> col (loc_set df sel c v) c = map (\<lambda>(m, x). if m then v else x) (zip sel (col df c))"
  by (auto simp: col_def loc_set_def in_names_iff map_of_upd_same)

lemma col_loc_set_other: "c' \<noteq> c \<Longrightarrow> col (loc_set df sel c v) c' = col df c'"
  by (auto simp: col_def loc_set_def in_names_iff map_of_upd_other map_add_def split: option.splits)

lemma names_set_col_present: "c \<in> set (names df) \<Longrightarrow> names (set_col df c cs) = names df"
  by (simp add: names_set_col)

lemma names_strip_columns: "names (strip_columns df) = map strip (names df)"
  by (simp add: names_def strip_columns_def split_beta)





lemma astype_int_Inr:
  "astype_int pd xs = Inr ys \<Longrightarrow>
     length ys = length xs \<and> (\<forall>i < length xs. astype_int_cell pd (xs ! i) = Inr (ys ! i))"
proof (induction xs arbitrary: ys)
  case Nil
  then show ?case by simp
next
  case (Cons x xs)
  then obtain v vs where v: "astype_int_cell pd x = Inr v" and vs: "astype_int pd xs = Inr vs"
    and ys: "ys = v # vs"
    by (auto split: sum.splits)
  from Cons.IH [OF vs] show ?case
    using v ys by (auto simp: nth_Cons split: nat.splits)
qed


lemma astype_int_cell_IntV: "astype_int_cell pd c = Inr v \<Longrightarrow> \<exists>n. v = IntV n"
  by (cases c) (auto split: option.splits)



lemma col_to_datetime_col_same:
  "c \<in> set (names df) \<Longrightarrow> col (to_datetime_col pd df c) c = map (to_datetime pd) (col df c)"
  by (simp add: to_datetime_col_def col_set_col_same)


text \<open>
  The Status coercion: after \<^verbatim>\<open>astype(str)\<close> no cell is null, so \<^verbatim>\<open>fillna\<close> changes
  nothing.
\<close>

lemma status_cell_string: "fillna (StrV t) (astype_str pd c) = astype_str pd c"
  by (simp add: fillna_def astype_str_def)


lemma status_coerce_Inl:
  "''Status'' \<notin> set (names df) \<Longrightarrow> status_coerce pd df = Inl (KeyError ''Status'')"
  by (simp add: status_coerce_def get_col_def in_names_iff split: option.splits)


lemma astype_str_col_Inl:
  "c \<notin> set (names df) \<Longrightarrow> astype_str_col pd df c = Inl (KeyError c)"
  by (simp add: astype_str_col_def get_col_def in_names_iff split: option.splits)

lemma coerce_quantity_Inr_iff:
  "coerce_quantity pd df = Inr g \<longleftrightarrow>
     ''Quantity'' \<in> set (names df) \<and>
     (\<exists>q. astype_int pd (map (quantity_cell pd) (col df ''Quantity'')) = Inr q \<and>
          g = set_col df ''Quantity'' q)"
  by (auto simp: coerce_quantity_def get_col_def col_def in_names_iff split: option.splits sum.splits)

lemma astype_str_col_Inr_iff:
  "astype_str_col pd df c = Inr g \<longleftrightarrow>
     c \<in> set (names df) \<and> g = set_col df c (map (astype_str pd) (col df c))"
  by (auto simp: astype_str_col_def get_col_def col_def in_names_iff split: option.splits)

lemma coerce_items_steps:
  assumes "coerce_items pd df = Inr g"
  obtains d1 d2 d3 d4 where
    "astype_str_col pd df ''Item'' = Inr d1"
    "coerce_quantity pd d1 = Inr d2"
    "astype_str_col pd d2 ''Order Status'' = Inr d3"
    "astype_str_col pd d3 ''Delivery Status'' = Inr d4"
    "astype_str_col pd d4 ''Notes'' = Inr g"
  using assms unfolding coerce_items_def by (auto split: sum.splits)

lemma coerce_items_Inr:
  assumes "coerce_items pd df = Inr g"
  shows "set needed_cols \<subseteq> set (names df)"
    and "names g = names df"
    and "nrows g = nrows df"
    and "col g ''Item'' = map (astype_str pd) (col df ''Item'')"
    and "astype_int pd (map (quantity_cell pd) (col df ''Quantity'')) = Inr (col g ''Quantity'')"
    and "col g ''Order Status'' = map (astype_str pd) (col df ''Order Status'')"
    and "col g ''Delivery Status'' = map (astype_str pd) (col df ''Delivery Status'')"
    and "col g ''Notes'' = map (astype_str pd) (col df ''Notes'')"
    and "\<And>c. c \<notin> set needed_cols \<Longrightarrow> col g c = col df c"
proof -
  from assms obtain d1 d2 d3 d4 where
    s1: "astype_str_col pd df ''Item'' = Inr d1" and
    s2: "coerce_quantity pd d1 = Inr d2" and
    s3: "astype_str_col pd d2 ''Order Status'' = Inr d3" and
    s4: "astype_str_col pd d3 ''Delivery Status'' = Inr d4" and
    s5: "astype_str_col pd d4 ''Notes'' = Inr g"
    by (rule coerce_items_steps)
  from s1 have i1: "''Item'' \<in> set (names df)"
    and d1: "d1 = set_col df ''Item'' (map (astype_str pd) (col df ''Item''))"
    by (simp_all add: astype_str_col_Inr_iff)
  from s2 obtain q where i2: "''Quantity'' \<in> set (names d1)"
    and q: "astype_int pd (map (quantity_cell pd) (col d1 ''Quantity'')) = Inr q"
    and d2: "d2 = set_col d1 ''Quantity'' q"
    by (auto simp: coerce_quantity_Inr_iff)
  from s3 have i3: "''Order Status'' \<in> set (names d2)"
    and d3: "d3 = set_col d2 ''Order Status'' (map (astype_str pd) (col d2 ''Order Status''))"
    by (simp_all add: astype_str_col_Inr_iff)
  from s4 have i4: "''Delivery Status'' \<in> set (names d3)"
    and d4: "d4 = set_col d3 ''Delivery Status'' (map (astype_str pd) (col d3 ''Delivery Status''))"
    by (simp_all add: astype_str_col_Inr_iff)
  from s5 have i5: "''Notes'' \<in> set (names d4)"
    and g: "g = set_col d4 ''Notes'' (map (astype_str pd) (col d4 ''Notes''))"
    by (simp_all add: astype_str_col_Inr_iff)
  have n1: "names d1 = names df" using i1 d1 by (simp add: names_set_col)
  have n2: "names d2 = names df" using i2 d2 n1 by (simp add: names_set_col)
  have n3: "names d3 = names df" using i3 d3 n2 by (simp add: names_set_col)
  have n4: "names d4 = names df" using i4 d4 n3 by (simp add: names_set_col)
  show "names g = names df" using i5 g n4 by (simp add: names_set_col)
  show "set needed_cols \<subseteq> set (names df)"
    using i1 i2 i3 i4 i5 n1 n2 n3 n4 by (simp add: needed_cols_def)
  show "nrows g = nrows df" by (simp add: g d4 d3 d2 d1)
  show "col g ''Item'' = map (astype_str pd) (col df ''Item'')"
    by (simp add: g d4 d3 d2 d1 col_set_col_same col_set_col_other)
  show "astype_int pd (map (quantity_cell pd) (col df ''Quantity'')) = Inr (col g ''Quantity'')"
    using q by (simp add: g d4 d3 d2 d1 col_set_col_same col_set_col_other)
  show "col g ''Order Status'' = map (astype_str pd) (col df ''Order Status'')"
    by (simp add: g d4 d3 d2 d1 col_set_col_same col_set_col_other)
  show "col g ''Delivery Status'' = map (astype_str pd) (col df ''Delivery Status'')"
    by (simp add: g d4 d3 d2 d1 col_set_col_same col_set_col_other)
  show "col g ''Notes'' = map (astype_str pd) (col df ''Notes'')"
    by (simp add: g d4 d3 d2 d1 col_set_col_same col_set_col_other)
  show "col g c = col df c" if "c \<notin> set needed_cols" for c
    using that by (simp add: g d4 d3 d2 d1 col_set_col_other needed_cols_def)
qed


text \<open>The definitions that running a concrete table unfolds.\<close>

lemmas string_simps = strip_def is_space_def lower_def lower_char_def isdigit_def digit_value_def
  int_of_digits_def str_of_int_def

lemmas frame_simps = names_def get_col_def set_col_def set_scalar_def strip_columns_def rename_def
  col_def loc_set_def drop_row_def drop_nth_def

lemmas load_simps = read_sql_def to_sql_def keeping_db_def refusing_db_def load_timeline_data_def
  load_items_data_def timeline_mapping_def items_mapping_def to_datetime_col_def status_coerce_def
  astype_str_col_def coerce_quantity_def coerce_items_def quantity_cell_def fillna_def astype_str_def
  of_numeric_def of_datetime_def whole_pandas_def whole_number_def

lemma quantity_cell_non_numeric: "non_numeric pd c \<Longrightarrow> quantity_cell pd c = IntV 0"
  by (cases c) (auto simp: non_numeric_def quantity_cell_def fillna_def of_numeric_def)

lemma quantity_cell_IntV: "quantity_cell pd (IntV n) = IntV n"
  by (simp add: quantity_cell_def fillna_def)

lemma coerced_quantity_cells:
  assumes "astype_int pd (map (quantity_cell pd) q) = Inr q'"
  shows "length q' = length q"
    and "\<And>i. i < length q \<Longrightarrow> \<exists>n. q' ! i = IntV n"
    and "\<And>i. i < length q \<Longrightarrow> non_numeric pd (q ! i) \<Longrightarrow> q' ! i = IntV 0"
    and "\<And>i n. i < length q \<Longrightarrow> q ! i = IntV n \<Longrightarrow> q' ! i = IntV n"
proof -
  from astype_int_Inr [OF assms]
  have l: "length q' = length q"
    and c: "\<And>i. i < length q \<Longrightarrow> astype_int_cell pd (quantity_cell pd (q ! i)) = Inr (q' ! i)"
    by simp_all
  show "length q' = length q" by (rule l)
  show "\<exists>n. q' ! i = IntV n" if "i < length q" for i
    using c [OF that] by (rule astype_int_cell_IntV)
  show "q' ! i = IntV 0" if "i < length q" "non_numeric pd (q ! i)" for i
    using c [OF that(1)] by (simp add: quantity_cell_non_numeric [OF that(2)])
  show "q' ! i = IntV n" if "i < length q" "q ! i = IntV n" for i n
    using c [OF that(1)] by (simp add: that(2) quantity_cell_IntV)
qed

lemma grid_save_timeline_data:
  "save_timeline_data r df = Inr r' \<Longrightarrow> grid r' = grid r"
  by (auto simp: save_timeline_data_def say_def split: sum.splits)

lemmas run_simps = save_timeline_data_def save_items_data_def say_def delete_row_main_def
  add_column_main_def pre_save_transform_def save_updates_main_def save_items_button_def
  editor_status_def
























subsection \<open>The backfill of the Items grid\<close>

text \<open>
  Lines 217 to 219 add every needed column that the loaded Items grid lacks. They stand
  after \<^verbatim>\<open>load_items_data\<close>, which reads all five columns and raises KeyError on the first
  one that is missing: the backfill never finds a column to add.
\<close>

lemma items_missing_column_raises:
  "load_items_data whole_pandas no_notes_db = Inl (KeyError ''Notes'') \<and>
   items_section whole_pandas no_notes_db = Inl (KeyError ''Notes'')"
  by (simp add: no_notes_db_def items_section_def load_simps frame_simps string_simps)

lemma backfill_never_adds:
  assumes "load_items_data pd d = Inr g"
  shows "backfill g = g"
proof -
  from assms obtain df where "coerce_items pd df = Inr g"
    by (auto simp: load_items_data_def split: sum.splits)
  from coerce_items_Inr(1,2) [OF this] have "set needed_cols \<subseteq> set (names g)" by simp
  then show ?thesis by (simp add: backfill_def needed_cols_def)
qed



lemma wf_set_col:
  assumes "wf_df df" and "c \<in> set (names df)" and "length cs = nrows df"
  shows "wf_df (set_col df c cs)"
proof -
  have "names (set_col df c cs) = names df" using assms(2) by (simp add: names_set_col)
  moreover have "list_all (\<lambda>(n, xs). length xs = nrows df) (columns (set_col df c cs))"
    using assms by (auto simp: wf_df_def set_col_def list_all_iff split: if_splits)
  ultimately show ?thesis using assms(1) by (simp add: wf_df_def)
qed

lemma editor_status_cells:
  assumes "''Status'' \<in> set (names g)"
  shows "names (editor_status pd g) = names g"
    and "nrows (editor_status pd g) = nrows g"
    and "col (editor_status pd g) ''Status'' = map (astype_str pd) (col g ''Status'')"
    and "\<And>c. c \<noteq> ''Status'' \<Longrightarrow> col (editor_status pd g) c = col g c"
    and "wf_df g \<Longrightarrow> wf_df (editor_status pd g)"
  using assms
  by (simp_all add: editor_status_def names_set_col col_set_col_same col_set_col_other
        status_cell_string wf_set_col wf_col_length)

lemma pre_save_transform_cells:
  assumes "wf_df g" and "''Status'' \<in> set (names g)" and "''Progress'' \<in> set (names g)"
  shows "\<exists>g'. pre_save_transform g = Inr g' \<and> nrows g' = nrows g \<and> names g' = names g \<and>
           col g' ''Status'' = col g ''Status'' \<and>
           length (col g' ''Progress'') = nrows g \<and>
           (\<forall>i < nrows g.
              col g' ''Progress'' ! i =
                (if is_finished (col g ''Status'' ! i) then IntV 100 else col g ''Progress'' ! i))"
proof -
  let ?s = "col g ''Status''"
  let ?g = "loc_set g (map is_finished ?s) ''Progress'' (IntV 100)"
  have ls: "length ?s = nrows g" and lp: "length (col g ''Progress'') = nrows g"
    using assms by (simp_all add: wf_col_length)
  have 1: "pre_save_transform g = Inr ?g"
    using assms(2) by (simp add: pre_save_transform_def get_col_def col_def in_names_iff split: option.splits)
  have 2: "names ?g = names g" using assms(3) by (simp add: names_loc_set)
  have 3: "col ?g ''Status'' = ?s" by (simp add: col_loc_set_other)
  have 4: "col ?g ''Progress'' = map (\<lambda>(m, x). if m then IntV 100 else x) (zip (map is_finished ?s) (col g ''Progress''))"
    using assms(3) by (rule col_loc_set_same)
  have 5: "nrows ?g = nrows g" by (simp add: loc_set_def)
  show ?thesis using 1 2 3 5 ls lp by (simp add: 4)
qed

section \<open>The pre-save transform\<close>

text \<open>
  Claim C1. Take a well-formed timeline grid that has the columns Status and Progress, as
  the editor returns it. Lines 200 to 204 (the Status coercion, then the pre-save transform
  of the Save button) go through and keep the rows and the column names; Status holds the
  texts of the edited cells; and Progress is 100 in every row whose Status is "finished"
  when put in lower case, whatever it was before, and is unchanged in every other row.
\<close>

theorem pre_save_forces_progress:
  assumes "wf_df g" and "''Status'' \<in> set (names g)" and "''Progress'' \<in> set (names g)"
  shows "\<exists>g'. pre_save_transform (editor_status pd g) = Inr g' \<and>
           nrows g' = nrows g \<and> names g' = names g \<and>
           col g' ''Status'' = map (astype_str pd) (col g ''Status'') \<and>
           length (col g' ''Progress'') = nrows g \<and>
           (\<forall>i < nrows g.
              col g' ''Progress'' ! i =
                (if lower (py_str pd (col g ''Status'' ! i)) = ''finished'' then IntV 100
                 else col g ''Progress'' ! i))"
proof -
  let ?e = "editor_status pd g"
  note e = editor_status_cells [OF assms(2), where pd = pd]
  have ls: "length (col g ''Status'') = nrows g"
    using assms(1,2) by (rule wf_col_length)
  have fin: "is_finished (col ?e ''Status'' ! i) \<longleftrightarrow>
      lower (py_str pd (col g ''Status'' ! i)) = ''finished''" if "i < nrows g" for i
    using that ls by (simp add: e(3) astype_str_def)
  from pre_save_transform_cells [of ?e] assms e
  obtain g' where g': "pre_save_transform ?e = Inr g'" "nrows g' = nrows g" "names g' = names g"
    "col g' ''Status'' = map (astype_str pd) (col g ''Status'')"
    "length (col g' ''Progress'') = nrows g"
    "\<forall>i < nrows g. col g' ''Progress'' ! i =
        (if is_finished (col ?e ''Status'' ! i) then IntV 100 else col g ''Progress'' ! i)"
    by auto
  from g'(6) fin have "\<forall>i < nrows g. col g' ''Progress'' ! i =
        (if lower (py_str pd (col g ''Status'' ! i)) = ''finished'' then IntV 100
         else col g ''Progress'' ! i)"
    by simp
  with g'(1-5) show ?thesis by blast
qed

theorem pre_save_forces_progress_witness:
  "wf_df example_timeline \<and> ''Status'' \<in> set (names example_timeline) \<and>
   ''Progress'' \<in> set (names example_timeline) \<and>
   (\<exists>g'. pre_save_transform (editor_status whole_pandas example_timeline) = Inr g' \<and>
         col g' ''Progress'' ! 0 = IntV 100 \<and> col g' ''Progress'' ! 1 = IntV 30)"
proof -
  have h1: "wf_df example_timeline"
    by (simp add: example_timeline_def wf_df_def names_def)
  have h2: "''Status'' \<in> set (names example_timeline)"
    by (simp add: example_timeline_def names_def)
  have h3: "''Progress'' \<in> set (names example_timeline)"
    by (simp add: example_timeline_def names_def)
  have s: "col example_timeline ''Status'' = [StrV ''FINISHED'', StrV ''In Progress'']"
    and p: "col example_timeline ''Progress'' = [IntV 50, IntV 30]"
    and n: "nrows example_timeline = 2"
    by (simp_all add: example_timeline_def col_def)
  have f: "lower ''FINISHED'' = ''finished''" "lower ''In Progress'' \<noteq> ''finished''"
    by (simp_all add: lower_def lower_char_def)
  from pre_save_forces_progress [OF h1 h2 h3, of whole_pandas] obtain g' where
    g: "pre_save_transform (editor_status whole_pandas example_timeline) = Inr g'"
    and a: "\<forall>i < nrows example_timeline. col g' ''Progress'' ! i =
         (if lower (py_str whole_pandas (col example_timeline ''Status'' ! i)) = ''finished''
          then IntV 100 else col example_timeline ''Progress'' ! i)"
    by blast
  from a have "col g' ''Progress'' ! 0 = IntV 100" "col g' ''Progress'' ! 1 = IntV 30"
    using f by (simp_all add: s p n)
  with g h1 h2 h3 show ?thesis by blast
qed

section \<open>The Status column after loading\<close>

text \<open>
  Claim C3. After loading the timeline, a stored Status that is null should be the string
  "Not Started". The loader applies \<^verbatim>\<open>astype(str)\<close> before \<^verbatim>\<open>fillna\<close>: the null
  cell is already the string "None" when \<^verbatim>\<open>fillna\<close> looks at it, and nothing is filled.
  The same holds for lines 200 and 201 on the editor's grid. Here the table with one null
  Status is loaded, and the grid with one null Status is coerced.
\<close>

theorem null_status_loads_as_None:
  "load_timeline_data whole_pandas null_status_db =
     Inr \<lparr>nrows = 1, columns = [(''Task'', [StrV ''Paint'']), (''Status'', [StrV ''None''])]\<rparr>
   \<and> editor_status whole_pandas null_status_grid =
     \<lparr>nrows = 1, columns = [(''Task'', [StrV ''Paint'']), (''Status'', [StrV ''None''])]\<rparr>"
  by (simp add: null_status_db_def null_status_grid_def editor_status_def load_simps frame_simps string_simps)

section \<open>The Quantity column after loading\<close>

text \<open>
  Claim C4 says that no loaded Quantity is negative. The loader has no clamp: a stored -2
  is loaded as -2.
\<close>

theorem negative_quantity_counterexample:
  "load_items_data whole_pandas negative_quantity_db =
     Inr \<lparr>nrows = 2,
          columns = [(''Item'', [StrV ''Cement'', StrV ''Nails'']),
                     (''Quantity'', [IntV 5, IntV (- 2)]),
                     (''Order Status'', [StrV ''Ordered'', StrV ''Not Ordered'']),
                     (''Delivery Status'', [StrV ''Delivered'', StrV ''Not Delivered'']),
                     (''Notes'', [StrV [], StrV ''urgent''])]\<rparr>"
  by (simp add: negative_quantity_db_def load_simps frame_simps string_simps)

text \<open>
  Claim C4, amended. For every Items grid that \<^verbatim>\<open>load_items_data\<close> returns, the Quantity
  column holds one integer per stored row; a stored cell that is non-numeric (null, empty,
  or a string that is not a number) is loaded as 0; a stored integer is loaded as it is,
  a negative one too.
\<close>

theorem loaded_quantity_integers:
  assumes "load_items_data pd d = Inr g"
  shows "\<exists>src. tables d ''Items_Order'' = Some src \<and>
           (let q = col (rename items_mapping (strip_columns src)) ''Quantity'' in
              length (col g ''Quantity'') = length q \<and>
              (\<forall>i < length q.
                 (\<exists>n. col g ''Quantity'' ! i = IntV n) \<and>
                 (non_numeric pd (q ! i) \<longrightarrow> col g ''Quantity'' ! i = IntV 0) \<and>
                 (\<forall>n. q ! i = IntV n \<longrightarrow> col g ''Quantity'' ! i = IntV n)))"
proof -
  from assms obtain src where src: "tables d ''Items_Order'' = Some src"
    and g: "coerce_items pd (rename items_mapping (strip_columns src)) = Inr g"
    by (auto simp: load_items_data_def read_sql_def split: option.splits)
  let ?q = "col (rename items_mapping (strip_columns src)) ''Quantity''"
  have "astype_int pd (map (quantity_cell pd) ?q) = Inr (col g ''Quantity'')"
    using g by (rule coerce_items_Inr)
  from coerced_quantity_cells [OF this] src show ?thesis
    by (simp add: Let_def)
qed

theorem loaded_quantity_integers_witness:
  "load_items_data whole_pandas (keeping_db [(''Items_Order'', text_quantity_table)]) =
     Inr \<lparr>nrows = 4,
          columns = [(''Item'', [StrV ''a'', StrV ''b'', StrV ''c'', StrV ''d'']),
                     (''Quantity'', [IntV 5, IntV 0, IntV (- 2), IntV 0]),
                     (''Order Status'', [StrV ''Ordered'', StrV ''Ordered'', StrV ''Ordered'', StrV ''Ordered'']),
                     (''Delivery Status'', [StrV ''Delayed'', StrV ''Delayed'', StrV ''Delayed'', StrV ''Delayed'']),
                     (''Notes'', [StrV ''None'', StrV ''None'', StrV ''None'', StrV ''None''])]\<rparr>
   \<and> non_numeric whole_pandas (StrV ''abc'' :: (int, int) cell)
   \<and> (\<exists>src. tables (keeping_db [(''Items_Order'', text_quantity_table)]) ''Items_Order'' = Some src)"
proof -
  let ?g = "\<lparr>nrows = 4,
          columns = [(''Item'', [StrV ''a'', StrV ''b'', StrV ''c'', StrV ''d'']),
                     (''Quantity'', [IntV 5, IntV 0, IntV (- 2), IntV 0]),
                     (''Order Status'', [StrV ''Ordered'', StrV ''Ordered'', StrV ''Ordered'', StrV ''Ordered'']),
                     (''Delivery Status'', [StrV ''Delayed'', StrV ''Delayed'', StrV ''Delayed'', StrV ''Delayed'']),
                     (''Notes'', [StrV ''None'', StrV ''None'', StrV ''None'', StrV ''None''])]\<rparr> :: (int, int) dataframe"
  have e: "load_items_data whole_pandas (keeping_db [(''Items_Order'', text_quantity_table)]) = Inr ?g"
    by (simp add: text_quantity_table_def load_simps frame_simps string_simps)
  have n: "non_numeric whole_pandas (StrV ''abc'' :: (int, int) cell)"
    by (simp add: non_numeric_def whole_pandas_def whole_number_def string_simps)
  from loaded_quantity_integers [OF e] have
    "\<exists>src. tables (keeping_db [(''Items_Order'', text_quantity_table)]) ''Items_Order'' = Some src"
    by blast
  with e n show ?thesis by blast
qed

section \<open>Deleting a row\<close>



section \<open>Adding a column\<close>

text \<open>
  Claim C6. When the name is empty or already a column of the grid, the button "Add Column
  (Main)" shows one message, a warning, and does nothing else, so the grid keeps its
  columns. Otherwise the grid gets one more column, the last one, under that name, holding
  in every row the zero value of the chosen type: the empty string, 0, 0.0 or the null
  date.
\<close>

theorem add_column_main_spec:
  "(new = [] \<or> new \<in> set (names (grid r)) \<longrightarrow>
      add_column_main pd r new k = say r Column_exists_or_invalid \<and>
      severity_of Column_exists_or_invalid = Is_warning \<and>
      grid (add_column_main pd r new k) = grid r \<and>
      run_db (add_column_main pd r new k) = run_db r) \<and>
   (new \<noteq> [] \<and> new \<notin> set (names (grid r)) \<longrightarrow>
      columns (grid (add_column_main pd r new k)) =
        columns (grid r) @ [(new, replicate (nrows (grid r)) (zero_value pd k))] \<and>
      nrows (grid (add_column_main pd r new k)) = nrows (grid r)) \<and>
   zero_value pd String_type = StrV [] \<and> zero_value pd Integer_type = IntV 0 \<and>
   zero_value pd Float_type = FloatV (zero_float pd) \<and> zero_value pd Datetime_type = NaT"
proof -
  have "grid (add_column_main pd r new k) = set_scalar (grid r) new (zero_value pd k)"
    if "new \<noteq> []" "new \<notin> set (names (grid r))"
    using that
    by (auto simp: add_column_main_def Let_def say_def split: sum.splits
          dest: grid_save_timeline_data)
  then show ?thesis
    by (auto simp: add_column_main_def say_def set_scalar_def set_col_def)
qed

theorem add_column_main_spec_witness:
  "''Status'' \<in> set (names (grid example_run)) \<and>
   grid (add_column_main whole_pandas example_run ''Status'' Integer_type) = grid example_run \<and>
   ''Crew'' \<noteq> [] \<and> ''Crew'' \<notin> set (names (grid example_run)) \<and>
   columns (grid (add_column_main whole_pandas example_run ''Crew'' Integer_type)) =
     columns (grid example_run) @ [(''Crew'', [IntV 0, IntV 0])]"
proof -
  have a: "''Status'' \<in> set (names (grid example_run))"
    and b: "''Crew'' \<notin> set (names (grid example_run))"
    and n: "nrows (grid example_run) = 2"
    by (simp_all add: example_run_def example_timeline_def names_def)
  show ?thesis
    using a b n add_column_main_spec [of "''Status''" example_run whole_pandas Integer_type]
      add_column_main_spec [of "''Crew''" example_run whole_pandas Integer_type]
    by (simp add: numeral_2_eq_2 say_def)
qed

section \<open>A save that fails\<close>



section \<open>Saving the Items table\<close>

text \<open>
  Claim C10. Whatever grid the button "Save Items Table" is pressed on, when the save goes
  through the frame handed to the database is the grid with its Quantity column coerced on
  the spot: one integer per row, and 0 where the cell was non-numeric (null, empty, or a
  string that is not a number). The table the database then holds is what it keeps of that
  frame.
\<close>

theorem saved_quantity_integers:
  assumes "\<not> rerun r" and "rerun (save_items_button pd r)"
  shows "\<exists>g t. coerce_quantity pd (grid r) = Inr g \<and> grid (save_items_button pd r) = g \<and>
           store (run_db r) ''Items_Order'' g = Some t \<and>
           tables (run_db (save_items_button pd r)) ''Items_Order'' = Some t \<and>
           length (col g ''Quantity'') = length (col (grid r) ''Quantity'') \<and>
           (\<forall>i < length (col (grid r) ''Quantity'').
              (\<exists>n. col g ''Quantity'' ! i = IntV n) \<and>
              (non_numeric pd (col (grid r) ''Quantity'' ! i) \<longrightarrow> col g ''Quantity'' ! i = IntV 0))"
proof -
  from assms obtain g where g: "coerce_quantity pd (grid r) = Inr g"
    by (cases "coerce_quantity pd (grid r)") (auto simp: save_items_button_def say_def)
  from assms g obtain t where t: "store (run_db r) ''Items_Order'' g = Some t"
    by (cases "store (run_db r) ''Items_Order'' g")
      (auto simp: save_items_button_def save_items_data_def to_sql_def say_def)
  have r': "grid (save_items_button pd r) = g"
    "tables (run_db (save_items_button pd r)) ''Items_Order'' = Some t"
    using g t by (simp_all add: save_items_button_def save_items_data_def to_sql_def say_def)
  from g obtain q where q: "astype_int pd (map (quantity_cell pd) (col (grid r) ''Quantity'')) = Inr q"
    and gq: "g = set_col (grid r) ''Quantity'' q"
    by (auto simp: coerce_quantity_Inr_iff)
  have c: "col g ''Quantity'' = q" by (simp add: gq col_set_col_same)
  from coerced_quantity_cells [OF q] g t r' show ?thesis
    by (simp add: c)
qed

theorem saved_quantity_integers_witness:
  "\<not> rerun items_run \<and> rerun (save_items_button whole_pandas items_run) \<and>
   tables (run_db (save_items_button whole_pandas items_run)) ''Items_Order'' =
     Some \<lparr>nrows = 3,
           columns = [(''Item'', [StrV ''Cement'', StrV ''Nails'', StrV ''Sand'']),
                      (''Quantity'', [IntV 5, IntV 0, IntV 0]),
                      (''Order Status'', [StrV ''Ordered'', StrV ''Not Ordered'', StrV ''Ordered'']),
                      (''Delivery Status'', [StrV ''Delivered'', StrV ''Delayed'', StrV ''Delayed'']),
                      (''Notes'', [StrV [], StrV ''urgent'', StrV []])]\<rparr> \<and>
   (\<exists>g. coerce_quantity whole_pandas (grid items_run) = Inr g)"
proof -
  have a: "\<not> rerun items_run" by (simp add: items_run_def)
  have b: "rerun (save_items_button whole_pandas items_run)"
    by (simp add: items_run_def edited_items_def run_simps load_simps frame_simps string_simps)
  have c: "tables (run_db (save_items_button whole_pandas items_run)) ''Items_Order'' =
     Some \<lparr>nrows = 3,
           columns = [(''Item'', [StrV ''Cement'', StrV ''Nails'', StrV ''Sand'']),
                      (''Quantity'', [IntV 5, IntV 0, IntV 0]),
                      (''Order Status'', [StrV ''Ordered'', StrV ''Not Ordered'', StrV ''Ordered'']),
                      (''Delivery Status'', [StrV ''Delivered'', StrV ''Delayed'', StrV ''Delayed'']),
                      (''Notes'', [StrV [], StrV ''urgent'', StrV []])]\<rparr>"
    by (simp add: items_run_def edited_items_def run_simps load_simps frame_simps string_simps)
  from saved_quantity_integers [OF a b]
  have "\<exists>g. coerce_quantity whole_pandas (grid items_run) = Inr g" by blast
  with a b c show ?thesis by blast
qed

section \<open>The exported text\<close>



section \<open>Columns and coercion failures in the loaders\<close>




section \<open>Saving and loading again\<close>




end
